theory Spec2Isabelle
  imports Complex_Main "HOL-Library.Multiset"
begin

section \<open>Data model\<close>

text \<open>Node identifiers are Python ints.\<close>

datatype py_error = KeyError | IndexError | ZeroDivisionError | NetworkXError

text \<open>
  The networkx graph, as the code reads it: \<open>graph.nodes()\<close> lists the nodes in
  insertion order, \<open>node in graph\<close> tests membership, and \<open>graph.neighbors(n)\<close> yields
  the adjacency of a node of the graph and raises \<open>NetworkXError\<close> for any other id.
\<close>

record graph =
  nodes :: "int list"
  adj :: "int \<Rightarrow> int list"

definition in_graph :: "graph \<Rightarrow> int \<Rightarrow> bool" where
  "in_graph g n = (n \<in> set (nodes g))"

definition neighbors :: "graph \<Rightarrow> int \<Rightarrow> py_error + int list" where
  "neighbors g n = (if in_graph g n then Inr (adj g n) else Inl NetworkXError)"

text \<open>The hater dictionary and the cost dictionary map node ids to floats.\<close>

type_synonym haters = "int \<rightharpoonup> real"
type_synonym costs = "int \<rightharpoonup> real"

definition dict_get :: "(int \<rightharpoonup> real) \<Rightarrow> int \<Rightarrow> real \<Rightarrow> real" where
  "dict_get d k dflt = (case d k of None \<Rightarrow> dflt | Some v \<Rightarrow> v)"

text \<open>
  The global random generator: an endless sequence of draws of \<open>random.random()\<close>,
  read at a position that every draw advances by one.
\<close>

type_synonym rng = "nat \<Rightarrow> real"

section \<open>Float arithmetic\<close>

text \<open>
  A Python float is a double, and its value is a real number. The operations on floats
  round their result, so they are not the operations of the reals. The functions of the
  program take the four operations as a parameter, and what is proved of them for every
  \<open>float_ops\<close> holds whatever the rounding does. The comparisons \<open><\<close>, \<open><=\<close> and \<open>==\<close> of
  floats are the comparisons of their values.
\<close>

record float_ops =
  fadd :: "real \<Rightarrow> real \<Rightarrow> real"
  fsub :: "real \<Rightarrow> real \<Rightarrow> real"
  fmul :: "real \<Rightarrow> real \<Rightarrow> real"
  fdiv :: "real \<Rightarrow> real \<Rightarrow> real"

text \<open>
  The arithmetic of IEEE 754 doubles, which is Python's: the exact result, rounded to the
  nearest number with a significand of 53 bits, a tie going to the even significand.
  Overflow, the subnormal range and NaN are left out: \<open>binary64\<close> is the arithmetic of the
  doubles for results in the normal range, and the example runs stay inside it.
\<close>

definition round_half_even :: "real \<Rightarrow> int" where
  "round_half_even y =
     (let f = \<lfloor>y\<rfloor> in
      if y - of_int f < 1 / 2 then f
      else if 1 / 2 < y - of_int f then f + 1
      else if even f then f else f + 1)"

definition round_double :: "real \<Rightarrow> real" where
  "round_double x =
     (if x = 0 then 0
      else let e = \<lfloor>log 2 \<bar>x\<bar>\<rfloor> - 52
           in of_int (round_half_even (x / 2 powr of_int e)) * 2 powr of_int e)"

definition binary64 :: float_ops where
  "binary64 = \<lparr>fadd = (\<lambda>a b. round_double (a + b)), fsub = (\<lambda>a b. round_double (a - b)),
               fmul = (\<lambda>a b. round_double (a * b)), fdiv = (\<lambda>a b. round_double (a / b))\<rparr>"

text \<open>
  The module constants. \<open>P_BASE\<close> is the double that the literal \<open>0.2\<close> denotes.
\<close>

definition P_BASE :: real where
  "P_BASE = 3602879701896397 / 18014398509481984"

definition ROUNDS :: int where
  "ROUNDS = 6"

section \<open>simulate\_influence\<close>

text \<open>
  The two accumulating loops of the round body. A Python set is iterated in some order;
  the model iterates the duplicate-free list that stands for the set. The order bears on
  the rounding of the product over three or more hater-neighbors only, and on no set of
  influenced nodes that is proved below.
\<close>

definition anti_influence_product :: "float_ops \<Rightarrow> haters \<Rightarrow> int list \<Rightarrow> real" where
  "anti_influence_product fp hs hater_neighbors =
     fold (\<lambda>hater_node acc. fmul fp acc (fsub fp 1 (dict_get hs hater_node 0)))
       hater_neighbors 1"

definition prob_not_infected_by_any :: "float_ops \<Rightarrow> real \<Rightarrow> real \<Rightarrow> int list \<Rightarrow> real" where
  "prob_not_infected_by_any fp p_base anti influencing =
     fold (\<lambda>u acc. fmul fp acc (fsub fp 1 (fmul fp p_base anti))) influencing 1"

definition influencing_neighbors :: "haters \<Rightarrow> int set \<Rightarrow> int list \<Rightarrow> int list" where
  "influencing_neighbors hs influenced candidate_neighbors =
     filter (\<lambda>u. u \<in> influenced \<and> u \<notin> dom hs) candidate_neighbors"

definition hater_neighbors_of :: "haters \<Rightarrow> int list \<Rightarrow> int list" where
  "hater_neighbors_of hs candidate_neighbors = filter (\<lambda>a. a \<in> dom hs) candidate_neighbors"

definition prob_infected ::
  "float_ops \<Rightarrow> haters \<Rightarrow> real \<Rightarrow> int set \<Rightarrow> int list \<Rightarrow> real" where
  "prob_infected fp hs p_base influenced candidate_neighbors =
     fsub fp 1 (prob_not_infected_by_any fp p_base
                  (anti_influence_product fp hs (hater_neighbors_of hs candidate_neighbors))
                  (influencing_neighbors hs influenced candidate_neighbors))"

text \<open>
  One pass of the inner \<open>for candidate in all_nodes_in_graph\<close> loop body. The state is
  the set of nodes newly influenced in this round and the position of the generator.
\<close>

definition candidate_step ::
  "float_ops \<Rightarrow> graph \<Rightarrow> haters \<Rightarrow> real \<Rightarrow> int set \<Rightarrow> rng \<Rightarrow> int \<Rightarrow> int set \<times> nat \<Rightarrow>
   int set \<times> nat" where
  "candidate_step fp g hs p_base influenced r candidate st =
     (if candidate \<in> influenced \<or> candidate \<in> dom hs then st
      else case neighbors g candidate of
        Inl e \<Rightarrow> st
      | Inr ns \<Rightarrow>
          let candidate_neighbors = remdups ns in
          if influencing_neighbors hs influenced candidate_neighbors = [] then st
          else if r (snd st) < prob_infected fp hs p_base influenced candidate_neighbors
               then (insert candidate (fst st), Suc (snd st))
               else (fst st, Suc (snd st)))"

definition round_pass ::
  "float_ops \<Rightarrow> graph \<Rightarrow> haters \<Rightarrow> real \<Rightarrow> int set \<Rightarrow> rng \<Rightarrow> nat \<Rightarrow> int set \<times> nat" where
  "round_pass fp g hs p_base influenced r pos =
     fold (candidate_step fp g hs p_base influenced r) (nodes g) ({}, pos)"

text \<open>One round: the pass over all nodes, then the update of the influenced set.\<close>

definition simulate_round ::
  "float_ops \<Rightarrow> graph \<Rightarrow> haters \<Rightarrow> real \<Rightarrow> rng \<Rightarrow> int set \<times> nat \<Rightarrow> int set \<times> nat" where
  "simulate_round fp g hs p_base r st =
     (let res = round_pass fp g hs p_base (fst st) r (snd st)
      in (fst st \<union> fst res, snd res))"

fun run_rounds ::
  "float_ops \<Rightarrow> graph \<Rightarrow> haters \<Rightarrow> real \<Rightarrow> rng \<Rightarrow> nat \<Rightarrow> int set \<times> nat \<Rightarrow> int set \<times> nat" where
  "run_rounds fp g hs p_base r 0 st = st"
| "run_rounds fp g hs p_base r (Suc n) st =
     run_rounds fp g hs p_base r n (simulate_round fp g hs p_base r st)"

definition initial_influenced :: "int list \<Rightarrow> haters \<Rightarrow> int set" where
  "initial_influenced initial_influencers hs = set initial_influencers - dom hs"

text \<open>
  The influenced set after the rounds of \<open>range(1, rounds + 1)\<close>, which is empty for a
  round count below one, and the position of the generator then.
\<close>

definition influenced_after ::
  "float_ops \<Rightarrow> graph \<Rightarrow> int list \<Rightarrow> haters \<Rightarrow> real \<Rightarrow> int \<Rightarrow> rng \<Rightarrow> nat \<Rightarrow> int set \<times> nat" where
  "influenced_after fp g initial_influencers hs p_base rounds r pos =
     run_rounds fp g hs p_base r (nat rounds) (initial_influenced initial_influencers hs, pos)"

text \<open>
  \<open>simulate_influence\<close>: an argument that is \<open>None\<close> gives the count 0 and draws
  nothing. The result is the count and the position of the generator after the call.
\<close>

definition simulate_influence ::
  "float_ops \<Rightarrow> graph option \<Rightarrow> int list option \<Rightarrow> haters option \<Rightarrow> real \<Rightarrow> int \<Rightarrow> rng \<Rightarrow> nat \<Rightarrow>
   nat \<times> nat" where
  "simulate_influence fp graph initial_influencers hs p_base rounds r pos =
     (case (graph, initial_influencers, hs) of
        (Some g, Some seeds, Some h) \<Rightarrow>
          (let res = influenced_after fp g seeds h p_base rounds r pos
           in (card (fst res), snd res))
      | _ \<Rightarrow> (0, pos))"

section \<open>Influence scoring\<close>

text \<open>
  \<open>set_value\<close>: the list is extended with zeros up to the index, then written at the
  index. A negative index is below the length, so Python writes from the end of the
  list, or raises \<open>IndexError\<close> when the list is too short.
\<close>

definition set_value :: "real list \<Rightarrow> int \<Rightarrow> real \<Rightarrow> py_error + real list" where
  "set_value xs index v =
     (let n = int (length xs) in
      if index \<ge> n then Inr ((xs @ replicate (nat (index + 1 - n)) 0)[nat index := v])
      else if 0 \<le> index then Inr (xs[nat index := v])
      else if - n \<le> index then Inr (xs[nat (n + index) := v])
      else Inl IndexError)"

definition find_P_u_v ::
  "float_ops \<Rightarrow> graph \<Rightarrow> haters \<Rightarrow> real \<Rightarrow> int \<Rightarrow> int \<Rightarrow> py_error + real" where
  "find_P_u_v fp g hs p_base u v =
     (case neighbors g v of
        Inl e \<Rightarrow> Inl e
      | Inr friends \<Rightarrow>
          Inr (fold (\<lambda>friend P_u_v. if friend \<in> dom hs
                                     then fmul fp P_u_v (fsub fp 1 (the (hs friend)))
                                     else P_u_v)
                 friends p_base))"

text \<open>The loop \<open>for friend in friends\<close> that adds up the one-hop probabilities.\<close>

fun sum_friends_influence ::
  "float_ops \<Rightarrow> graph \<Rightarrow> haters \<Rightarrow> real \<Rightarrow> int \<Rightarrow> int list \<Rightarrow> real \<Rightarrow> py_error + real" where
  "sum_friends_influence fp g hs p_base user_id [] acc = Inr acc"
| "sum_friends_influence fp g hs p_base user_id (friend # friends) acc =
     (case find_P_u_v fp g hs p_base user_id friend of
        Inl e \<Rightarrow> Inl e
      | Inr p \<Rightarrow> sum_friends_influence fp g hs p_base user_id friends (fadd fp acc p))"

text \<open>
  The loop \<open>for user_id in costs\<close> of \<open>find_average_influence\<close>, with the score list as
  its state. The division by \<open>len(friends)\<close> raises \<open>ZeroDivisionError\<close> when the node has
  no neighbor.
\<close>

fun average_influence_loop ::
  "float_ops \<Rightarrow> graph \<Rightarrow> haters \<Rightarrow> real \<Rightarrow> int list \<Rightarrow> real list \<Rightarrow> py_error + real list" where
  "average_influence_loop fp g hs p_base [] list_average_influence = Inr list_average_influence"
| "average_influence_loop fp g hs p_base (user_id # rest) list_average_influence =
     (case neighbors g user_id of
        Inl e \<Rightarrow> Inl e
      | Inr friends \<Rightarrow>
          (case sum_friends_influence fp g hs p_base user_id friends 0 of
             Inl e \<Rightarrow> Inl e
           | Inr s \<Rightarrow>
               if length friends = 0 then Inl ZeroDivisionError
               else (case set_value list_average_influence user_id
                            (fdiv fp s (real (length friends))) of
                       Inl e \<Rightarrow> Inl e
                     | Inr l \<Rightarrow> average_influence_loop fp g hs p_base rest l)))"

definition find_average_influence ::
  "float_ops \<Rightarrow> graph \<Rightarrow> haters \<Rightarrow> int list \<Rightarrow> real \<Rightarrow> py_error + real list" where
  "find_average_influence fp g hs cs p_base = average_influence_loop fp g hs p_base cs []"

section \<open>find\_top\_group\<close>

text \<open>
  \<open>influence_array.argsort()\<close> of numpy gives indices that sort the array in ascending
  order. Its default sort is not stable: numpy promises no order among the indices of
  equal values, and the order it leaves them in depends on the sorting routine of the
  platform. The call is a parameter of the model, and \<open>is_argsort\<close> is all that numpy
  promises of its result: a permutation of the indices along which the values ascend.
\<close>

definition is_argsort :: "real list \<Rightarrow> nat list \<Rightarrow> bool" where
  "is_argsort xs idx =
     (distinct idx \<and> set idx = {..<length xs} \<and> sorted (map (\<lambda>i. xs ! i) idx))"

text \<open>The slice \<open>a[start:]\<close>: a negative start counts from the end of the list.\<close>

definition slice_from :: "int \<Rightarrow> 'a list \<Rightarrow> 'a list" where
  "slice_from start xs =
     (let n = int (length xs) in
      if start < 0 then drop (nat (max 0 (n + start))) xs
      else drop (nat (min start n)) xs)"

definition find_top_group :: "(real list \<Rightarrow> nat list) \<Rightarrow> int \<Rightarrow> real list \<Rightarrow> nat list" where
  "find_top_group argsort sz list_average_influence =
     rev (slice_from (- sz) (argsort list_average_influence))"

section \<open>compute\_spreadness\<close>

text \<open>
  The result is a float that may be \<open>float('inf')\<close>. The two networkx calls are
  parameters: \<open>has_path\<close>, and \<open>shortest_path_length\<close>, whose \<open>None\<close> stands for a raised
  \<open>NetworkXError\<close>, which the loop body catches. The sum and the count are Python ints,
  and the division of the last line is the float division.
\<close>

datatype py_float = Finite real | PosInf

definition pair_step ::
  "(graph \<Rightarrow> int \<Rightarrow> int \<Rightarrow> bool) \<Rightarrow> (graph \<Rightarrow> int \<Rightarrow> int \<Rightarrow> nat option) \<Rightarrow> graph \<Rightarrow>
   int \<Rightarrow> int \<Rightarrow> nat \<times> nat \<Rightarrow> nat \<times> nat" where
  "pair_step has_path shortest_path_length g u v st =
     (if has_path g u v
      then (case shortest_path_length g u v of
              Some path_len \<Rightarrow> (fst st + path_len, snd st + 1)
            | None \<Rightarrow> st)
      else st)"

definition spreadness_loops ::
  "(graph \<Rightarrow> int \<Rightarrow> int \<Rightarrow> bool) \<Rightarrow> (graph \<Rightarrow> int \<Rightarrow> int \<Rightarrow> nat option) \<Rightarrow> graph \<Rightarrow>
   int list \<Rightarrow> nat \<times> nat" where
  "spreadness_loops has_path shortest_path_length g grp =
     fold (\<lambda>i st. fold (\<lambda>j. pair_step has_path shortest_path_length g (grp ! i) (grp ! j))
                     [i + 1..<length grp] st)
          [0..<length grp] (0, 0)"

definition compute_spreadness ::
  "float_ops \<Rightarrow> (graph \<Rightarrow> int \<Rightarrow> int \<Rightarrow> bool) \<Rightarrow> (graph \<Rightarrow> int \<Rightarrow> int \<Rightarrow> nat option) \<Rightarrow> graph \<Rightarrow>
   int list \<Rightarrow> py_float" where
  "compute_spreadness fp has_path shortest_path_length g grp0 =
     (let grp = filter (in_graph g) grp0; n = length grp in
      if n < 2 then Finite 0
      else
        let st = spreadness_loops has_path shortest_path_length g grp;
            total_length = fst st; count = snd st
        in if count = 0 then PosInf else Finite (fdiv fp (real total_length) (real count)))"

section \<open>sampled\_possible\_groups\<close>

text \<open>
  The \<open>for node in initial_group\<close> loop of one attempt: it gives the sorted tuple when the
  running total hits the budget (the \<open>break\<close>), \<open>None\<close> when the list ends first, and
  \<open>KeyError\<close> when a node has no cost. The running total is a float sum.
\<close>

fun pack_group ::
  "float_ops \<Rightarrow> costs \<Rightarrow> real \<Rightarrow> int list \<Rightarrow> int list \<Rightarrow> real \<Rightarrow> py_error + int list option" where
  "pack_group fp cs budget [] grp tot = Inr None"
| "pack_group fp cs budget (node # rest) grp tot =
     (case cs node of
        None \<Rightarrow> Inl KeyError
      | Some cost \<Rightarrow>
          let grp' = (if fadd fp tot cost \<le> budget then grp @ [node] else grp);
              tot' = (if fadd fp tot cost \<le> budget then fadd fp tot cost else tot)
          in if tot' = budget then Inr (Some (sort grp'))
             else pack_group fp cs budget rest grp' tot')"





section \<open>Monte-Carlo selection\<close>

text \<open>The loop \<open>for i in range(num_tests)\<close>: the total and the generator position.\<close>

fun simulate_trials ::
  "float_ops \<Rightarrow> graph option \<Rightarrow> int list option \<Rightarrow> haters option \<Rightarrow> real \<Rightarrow> int \<Rightarrow> rng \<Rightarrow> nat \<Rightarrow>
   nat \<times> nat \<Rightarrow> nat \<times> nat" where
  "simulate_trials fp graph grp hs p_base rounds r 0 st = st"
| "simulate_trials fp graph grp hs p_base rounds r (Suc n) st =
     (let res = simulate_influence fp graph grp hs p_base rounds r (snd st)
      in simulate_trials fp graph grp hs p_base rounds r n (fst st + fst res, snd res))"

definition average_num_tests_simulates ::
  "float_ops \<Rightarrow> graph option \<Rightarrow> int list \<Rightarrow> haters option \<Rightarrow> real \<Rightarrow> int \<Rightarrow> int \<Rightarrow> rng \<Rightarrow> nat \<Rightarrow>
   py_error + (real \<times> nat)" where
  "average_num_tests_simulates fp graph grp hs p_base rounds num_tests r pos =
     (let st = simulate_trials fp graph (Some grp) hs p_base rounds r (nat num_tests) (0, pos)
      in if num_tests = 0 then Inl ZeroDivisionError
         else Inr (fdiv fp (real (fst st)) (real_of_int num_tests), snd st))"

text \<open>
  The loop of \<open>greedy_based_simulate\<close>. Its call of \<open>average_num_tests_simulates\<close> passes
  the module constants \<open>P_BASE\<close> and \<open>ROUNDS\<close>, not the arguments \<open>p_base\<close> and \<open>rounds\<close>.
\<close>

fun greedy_loop ::
  "float_ops \<Rightarrow> graph option \<Rightarrow> haters option \<Rightarrow> int \<Rightarrow> rng \<Rightarrow> int list list \<Rightarrow> int list \<Rightarrow> real \<Rightarrow>
   nat \<Rightarrow> py_error + int list" where
  "greedy_loop fp graph hs num_tests r [] S_0 average_max pos = Inr S_0"
| "greedy_loop fp graph hs num_tests r (grp # rest) S_0 average_max pos =
     (case average_num_tests_simulates fp graph grp hs P_BASE ROUNDS num_tests r pos of
        Inl e \<Rightarrow> Inl e
      | Inr res \<Rightarrow>
          if average_max < fst res
          then greedy_loop fp graph hs num_tests r rest grp (fst res) (snd res)
          else greedy_loop fp graph hs num_tests r rest S_0 average_max (snd res))"

definition greedy_based_simulate ::
  "float_ops \<Rightarrow> int list list \<Rightarrow> graph option \<Rightarrow> haters option \<Rightarrow> real \<Rightarrow> int \<Rightarrow> int \<Rightarrow> rng \<Rightarrow> nat \<Rightarrow>
   py_error + int list" where
  "greedy_based_simulate fp possible_groups graph hs p_base rounds num_tests r pos =
     (case possible_groups of
        [] \<Rightarrow> Inl IndexError
      | first # others \<Rightarrow>
          (case average_num_tests_simulates fp graph first hs p_base rounds num_tests r pos of
             Inl e \<Rightarrow> Inl e
           | Inr res \<Rightarrow>
               greedy_loop fp graph hs num_tests r possible_groups first (fst res) (snd res)))"

section \<open>Example inputs\<close>

text \<open>The path 1 - 2 - 3, and the graph with no node.\<close>

definition path3 :: graph where
  "path3 = \<lparr>nodes = [1, 2, 3],
            adj = (\<lambda>n. if n = 1 then [2] else if n = 2 then [1, 3]
                        else if n = 3 then [2] else [])\<rparr>"

definition empty_graph :: graph where
  "empty_graph = \<lparr>nodes = [], adj = (\<lambda>n. [])\<rparr>"

text \<open>The edge 1 - 2 and the node 3, which has no neighbor.\<close>

definition isolated_graph :: graph where
  "isolated_graph = \<lparr>nodes = [1, 2, 3],
      adj = (\<lambda>n. if n = 1 then [2] else if n = 2 then [1] else [])\<rparr>"

text \<open>
  One function that meets \<open>is_argsort\<close> on every array: the stable insertion sort of the
  indices. On an array with no two equal values it is the only one.
\<close>

definition stable_argsort :: "real list \<Rightarrow> nat list" where
  "stable_argsort xs = sort_key (\<lambda>i. xs ! i) [0..<length xs]"

section \<open>Spreadness, as the specification words it\<close>

text \<open>
  The pairs of positions \<open>i < j\<close> of a group of \<open>n\<close> nodes, those of them whose nodes are
  connected, and the mean shortest-path distance over a list of pairs: the sum of the
  distances, divided as floats are by the number of pairs.
\<close>

definition index_pairs :: "nat \<Rightarrow> (nat \<times> nat) list" where
  "index_pairs n = concat (map (\<lambda>i. map (\<lambda>j. (i, j)) [i + 1..<n]) [0..<n])"

definition connected_pairs ::
  "(graph \<Rightarrow> int \<Rightarrow> int \<Rightarrow> bool) \<Rightarrow> graph \<Rightarrow> int list \<Rightarrow> (nat \<times> nat) list" where
  "connected_pairs has_path g grp =
     filter (\<lambda>p. has_path g (grp ! fst p) (grp ! snd p)) (index_pairs (length grp))"

definition mean_distance ::
  "float_ops \<Rightarrow> (graph \<Rightarrow> int \<Rightarrow> int \<Rightarrow> nat option) \<Rightarrow> graph \<Rightarrow> int list \<Rightarrow> (nat \<times> nat) list \<Rightarrow>
   real" where
  "mean_distance fp shortest_path_length g grp ps =
     fdiv fp
       (real (sum_list (map (\<lambda>p. the (shortest_path_length g (grp ! fst p) (grp ! snd p))) ps)))
       (real (length ps))"

text \<open>
  The path 1 - 2 - 3 with a fourth, isolated node, and what networkx answers on it: the
  nodes 1, 2 and 3 are connected, at the distance of their difference.
\<close>

definition path3_plus :: graph where
  "path3_plus = \<lparr>nodes = [1, 2, 3, 4],
      adj = (\<lambda>n. if n = 1 then [2] else if n = 2 then [1, 3] else if n = 3 then [2] else [])\<rparr>"

definition has_path_example :: "graph \<Rightarrow> int \<Rightarrow> int \<Rightarrow> bool" where
  "has_path_example g u v = (u = v \<or> (1 \<le> u \<and> u \<le> 3 \<and> 1 \<le> v \<and> v \<le> 3))"

definition shortest_path_length_example :: "graph \<Rightarrow> int \<Rightarrow> int \<Rightarrow> nat option" where
  "shortest_path_length_example g u v =
     (if has_path_example g u v then Some (nat \<bar>u - v\<bar>) else None)"

section \<open>The sampled groups, as the specification words them\<close>




section \<open>An input of the Monte-Carlo selection\<close>

text \<open>
  The star with center 1 and leaves 4 and 5, as \<open>nx.Graph([(1, 4), (1, 5)])\<close> builds it,
  and the first ten draws of \<open>random.random()\<close> after \<open>random.seed(42)\<close>, the seed that
  the module sets when it is imported. The run below reads no draw after the tenth.
\<close>

definition star3 :: graph where
  "star3 = \<lparr>nodes = [1, 4, 5],
            adj = (\<lambda>n. if n = 1 then [4, 5] else if n = 4 \<or> n = 5 then [1] else [])\<rparr>"

definition seed42_draws :: "real list" where
  "seed42_draws =
     [5759444582531269 / 9007199254740992, 225276855802115 / 9007199254740992,
      1238621935723127 / 4503599627370496, 2010503594304263 / 9007199254740992,
      3316771485678143 / 4503599627370496, 3047583559399629 / 4503599627370496,
      502252446082889 / 562949953421312, 783075388467729 / 9007199254740992,
      3800333899828131 / 9007199254740992, 268389492715941 / 9007199254740992]"

definition draws_seed42 :: rng where
  "draws_seed42 k = seed42_draws ! k"

section \<open>Rounding to a double\<close>

lemma round_double_0: "round_double 0 = 0"
  by (simp add: round_double_def)

lemma round_double_at:
  assumes "x \<noteq> 0" "\<lfloor>log 2 \<bar>x\<bar>\<rfloor> = e" "2 powr of_int (e - 52) = u"
  shows "round_double x = of_int (round_half_even (x / u)) * u"
  using assms by (simp add: round_double_def Let_def)

text \<open>The rounding of a number between \<open>2 ^ k\<close> and \<open>2 ^ (k + 1)\<close>.\<close>

lemma round_double_ge1:
  assumes "2 ^ k \<le> \<bar>x\<bar>" "\<bar>x\<bar> < 2 * 2 ^ k"
  shows "round_double x = of_int (round_half_even (x * 2 ^ 52 / 2 ^ k)) * 2 ^ k / 2 ^ 52"
proof -
  have "(0::real) < 2 ^ k" by simp
  with assms(1) have pos: "0 < \<bar>x\<bar>" by linarith
  have e: "\<lfloor>log 2 \<bar>x\<bar>\<rfloor> = int k"
    using assms pos by (simp add: floor_log_eq_powr_iff powr_add powr_realpow)
  have u: "2 powr (real_of_int (int k - 52)) = (2::real) ^ k / 2 ^ 52"
    by (simp add: powr_diff powr_realpow)
  have "x \<noteq> 0" using pos by simp
  from round_double_at [OF this e u] show ?thesis by simp
qed

text \<open>The rounding of a number between \<open>2 ^ (- k)\<close> and \<open>2 ^ (1 - k)\<close>.\<close>

lemma round_double_lt1:
  assumes "1 \<le> \<bar>x\<bar> * 2 ^ k" "\<bar>x\<bar> * 2 ^ k < 2"
  shows "round_double x = of_int (round_half_even (x * 2 ^ 52 * 2 ^ k)) / (2 ^ 52 * 2 ^ k)"
proof -
  have pos: "0 < \<bar>x\<bar>" using assms(1) by (cases "x = 0") simp_all
  have a: "2 powr (- real k) = 1 / (2::real) ^ k"
    by (simp add: powr_minus powr_realpow inverse_eq_divide)
  have b: "2 powr (1 - real k) = 2 / (2::real) ^ k"
    by (simp add: powr_diff powr_realpow)
  have c: "1 / 2 ^ k \<le> \<bar>x\<bar> \<and> \<bar>x\<bar> < 2 / 2 ^ k"
    using assms by (simp add: field_simps)
  have e: "\<lfloor>log 2 \<bar>x\<bar>\<rfloor> = - int k"
    using pos c by (simp add: floor_log_eq_powr_iff a b)
  have u: "2 powr (real_of_int (- int k - 52)) = 1 / ((2::real) ^ 52 * 2 ^ k)"
    using a by (simp add: powr_diff)
  have "x \<noteq> 0" using pos by simp
  from round_double_at [OF this e u] show ?thesis by (simp add: mult.assoc)
qed

lemma round_double_half: "round_double (1 / 2) = 1 / 2"
  using round_double_lt1 [of "1 / 2" 1] by (simp add: round_half_even_def)

lemma round_double_1: "round_double 1 = 1"
  using round_double_ge1 [of 0 1] by (simp add: round_half_even_def)

lemma round_double_2: "round_double 2 = 2"
  using round_double_ge1 [of 1 2] by (simp add: round_half_even_def)

lemma round_double_3: "round_double 3 = 3"
  using round_double_ge1 [of 1 3] by (simp add: round_half_even_def)




text \<open>
  The roundings met when the threshold of a node with one influencing neighbor and no
  hater-neighbor is computed at \<open>P_BASE\<close>: \<open>1.0 - 0.2\<close> is a tie, and rounds to the even
  significand.
\<close>

lemma round_double_P_BASE:
  "round_double (3602879701896397 / 18014398509481984) = 3602879701896397 / 18014398509481984"
  using round_double_lt1 [of "3602879701896397 / 18014398509481984" 3]
  by (simp add: round_half_even_def)

lemma round_double_1_minus_P_BASE:
  "round_double (14411518807585587 / 18014398509481984) = 3602879701896397 / 4503599627370496"
  using round_double_lt1 [of "14411518807585587 / 18014398509481984" 1]
  by (simp add: round_half_even_def)

lemma round_double_08:
  "round_double (3602879701896397 / 4503599627370496) = 3602879701896397 / 4503599627370496"
  using round_double_lt1 [of "3602879701896397 / 4503599627370496" 1]
  by (simp add: round_half_even_def)

lemma round_double_02:
  "round_double (900719925474099 / 4503599627370496) = 900719925474099 / 4503599627370496"
  using round_double_lt1 [of "900719925474099 / 4503599627370496" 3]
  by (simp add: round_half_even_def)

lemma binary64_simps:
  "fadd binary64 a b = round_double (a + b)"
  "fsub binary64 a b = round_double (a - b)"
  "fmul binary64 a b = round_double (a * b)"
  "fdiv binary64 a b = round_double (a / b)"
  by (simp_all add: binary64_def)

section \<open>The influenced set over the rounds\<close>

lemma candidate_step_mono: "fst st \<subseteq> fst (candidate_step fp g hs p I r c st)"
  by (auto simp: candidate_step_def Let_def split: sum.splits)

lemma candidate_step_bound:
  "fst (candidate_step fp g hs p I r c st) \<subseteq> fst st \<union> ({c} \<inter> set (nodes g) - I - dom hs)"
  by (auto simp: candidate_step_def Let_def neighbors_def in_graph_def split: sum.splits if_splits)

lemma fold_candidate_step_bound:
  "fst (fold (candidate_step fp g hs p I r) xs st)
     \<subseteq> fst st \<union> (set xs \<inter> set (nodes g) - I - dom hs)"
proof (induction xs arbitrary: st)
  case Nil
  then show ?case by simp
next
  case (Cons c xs)
  have "fst (fold (candidate_step fp g hs p I r) xs (candidate_step fp g hs p I r c st))
        \<subseteq> fst (candidate_step fp g hs p I r c st) \<union> (set xs \<inter> set (nodes g) - I - dom hs)"
    by (rule Cons.IH)
  with candidate_step_bound [of fp g hs p I r c st] show ?case by auto
qed

lemma round_pass_bound:
  "fst (round_pass fp g hs p I r pos) \<subseteq> set (nodes g) - I - dom hs"
  using fold_candidate_step_bound [of fp g hs p I r "nodes g" "({}, pos)"]
  by (auto simp: round_pass_def)

lemma simulate_round_mono: "fst st \<subseteq> fst (simulate_round fp g hs p r st)"
  by (simp add: simulate_round_def Let_def)

lemma simulate_round_no_hater:
  "fst st \<inter> dom hs = {} \<Longrightarrow> fst (simulate_round fp g hs p r st) \<inter> dom hs = {}"
  using round_pass_bound [of fp g hs p "fst st" r "snd st"]
  by (auto simp: simulate_round_def Let_def)

lemma simulate_round_bound:
  "fst (simulate_round fp g hs p r st) \<subseteq> fst st \<union> set (nodes g)"
  using round_pass_bound [of fp g hs p "fst st" r "snd st"]
  by (auto simp: simulate_round_def Let_def)

text \<open>The state after \<open>n + 1\<close> rounds is one round applied to the state after \<open>n\<close>.\<close>

lemma run_rounds_Suc:
  "run_rounds fp g hs p r (Suc n) st = simulate_round fp g hs p r (run_rounds fp g hs p r n st)"
  by (induction n arbitrary: st) simp_all

lemma run_rounds_step_mono:
  "fst (run_rounds fp g hs p r n st) \<subseteq> fst (run_rounds fp g hs p r (Suc n) st)"
  unfolding run_rounds_Suc by (rule simulate_round_mono)

lemma run_rounds_mono: "fst st \<subseteq> fst (run_rounds fp g hs p r n st)"
proof (induction n)
  case 0
  then show ?case by simp
next
  case (Suc n)
  with run_rounds_step_mono [of fp g hs p r n st] show ?case by blast
qed

lemma run_rounds_no_hater:
  "fst st \<inter> dom hs = {} \<Longrightarrow> fst (run_rounds fp g hs p r n st) \<inter> dom hs = {}"
proof (induction n)
  case 0
  then show ?case by simp
next
  case (Suc n)
  then show ?case unfolding run_rounds_Suc by (intro simulate_round_no_hater) simp
qed

lemma run_rounds_bound:
  "fst (run_rounds fp g hs p r n st) \<subseteq> fst st \<union> set (nodes g)"
proof (induction n)
  case 0
  then show ?case by simp
next
  case (Suc n)
  with simulate_round_bound [of fp g hs p r "run_rounds fp g hs p r n st"] show ?case
    unfolding run_rounds_Suc by blast
qed

lemma initial_no_hater: "initial_influenced seeds hs \<inter> dom hs = {}"
  by (auto simp: initial_influenced_def)

lemma run_rounds_finite:
  "finite (fst st) \<Longrightarrow> finite (fst (run_rounds fp g hs p r n st))"
  using run_rounds_bound [of fp g hs p r n st] by (meson List.finite_set finite_UnI finite_subset)

lemma round_pass_empty: "round_pass fp g hs p {} r pos = ({}, pos)"
proof -
  have "fold (candidate_step fp g hs p {} r) xs st = st" for xs st
    by (induction xs arbitrary: st)
       (auto simp: candidate_step_def influencing_neighbors_def Let_def split: sum.splits)
  then show ?thesis by (simp add: round_pass_def)
qed

lemma run_rounds_empty: "run_rounds fp g hs p r n ({}, pos) = ({}, pos)"
  by (induction n) (simp_all add: simulate_round_def round_pass_empty)

lemma run_rounds_empty_graph: "nodes g = [] \<Longrightarrow> run_rounds fp g hs p r n st = st"
  by (induction n arbitrary: st) (simp_all add: simulate_round_def round_pass_def)

text \<open>
  A round on the path 1 - 2 - 3 with node 3 a hater of weight 1/2, seed 1, base
  probability 1 and draws that are all 0. No operation of the round rounds: the threshold
  of node 2 is 1/2.
\<close>

lemma path3_round:
  "round_pass binary64 path3 [3 \<mapsto> 1 / 2] 1 {1} (\<lambda>k. 0) 0 = ({2}, 1)"
  by (simp add: round_pass_def path3_def candidate_step_def neighbors_def in_graph_def
      influencing_neighbors_def prob_infected_def hater_neighbors_of_def
      anti_influence_product_def prob_not_infected_by_any_def dict_get_def
      binary64_simps round_double_half)

lemma path3_initial: "initial_influenced [1] [3 \<mapsto> 1 / 2] = {1}"
  by (simp add: initial_influenced_def)

lemma path3_one_round:
  "simulate_round binary64 path3 [3 \<mapsto> 1 / 2] 1 (\<lambda>k. 0) ({1}, 0) = ({1, 2}, 1)"
  by (simp add: simulate_round_def path3_round)

text \<open>
  Claim C2. In a run of \<open>simulate_influence\<close> on a graph, a seed list and a hater map, the
  influenced set after round \<open>j\<close> is contained in the one after round \<open>j + 1\<close>, and the
  influenced set holds no hater, at the start and after every round. The count returned
  is the size of the set after the last round.
\<close>

theorem simulate_influence_monotone_no_hater:
  "fst (run_rounds fp g hs p_base r j (initial_influenced seeds hs, pos))
     \<subseteq> fst (run_rounds fp g hs p_base r (Suc j) (initial_influenced seeds hs, pos))
   \<and> fst (run_rounds fp g hs p_base r j (initial_influenced seeds hs, pos)) \<inter> dom hs = {}
   \<and> fst (simulate_influence fp (Some g) (Some seeds) (Some hs) p_base rounds r pos)
       = card (fst (run_rounds fp g hs p_base r (nat rounds) (initial_influenced seeds hs, pos)))"
  using run_rounds_step_mono [of fp g hs p_base r j "(initial_influenced seeds hs, pos)"]
    run_rounds_no_hater [of "(initial_influenced seeds hs, pos)" hs fp g p_base r j]
  by (simp add: initial_no_hater simulate_influence_def influenced_after_def Let_def)

theorem simulate_influence_monotone_no_hater_witness:
  "fst (run_rounds binary64 path3 [3 \<mapsto> 1 / 2] 1 (\<lambda>k. 0) 0
          (initial_influenced [1] [3 \<mapsto> 1 / 2], 0)) = {1}
   \<and> fst (run_rounds binary64 path3 [3 \<mapsto> 1 / 2] 1 (\<lambda>k. 0) (Suc 0)
            (initial_influenced [1] [3 \<mapsto> 1 / 2], 0)) = {1, 2}
   \<and> {1, 2} \<inter> dom [3 \<mapsto> 1 / 2 :: real] = ({} :: int set)
   \<and> fst (simulate_influence binary64 (Some path3) (Some [1]) (Some [3 \<mapsto> 1 / 2]) 1 1
            (\<lambda>k. 0) 0) = 2"
  using simulate_influence_monotone_no_hater
          [of binary64 path3 "[3 \<mapsto> 1 / 2]" 1 "\<lambda>k. 0" 0 "[1]" 0 1]
  by (simp add: path3_initial path3_one_round)

text \<open>
  Claim C10. When the graph, the seed list and the hater map are given, the count that
  \<open>simulate_influence\<close> returns is at least the number of distinct seeds that are not
  haters, for every base probability and round count: every such seed is in the final
  influenced set, whether or not the graph has it as a node.
\<close>

theorem simulate_influence_counts_seeds:
  "card (set seeds - dom hs)
     \<le> fst (simulate_influence fp (Some g) (Some seeds) (Some hs) p_base rounds r pos)
   \<and> (\<forall>s \<in> set seeds. s \<notin> dom hs \<longrightarrow>
        s \<in> fst (influenced_after fp g seeds hs p_base rounds r pos))"
proof -
  let ?st = "(initial_influenced seeds hs, pos)"
  let ?F = "fst (run_rounds fp g hs p_base r (nat rounds) ?st)"
  have sub: "set seeds - dom hs \<subseteq> ?F"
    using run_rounds_mono [of ?st fp g hs p_base r "nat rounds"]
    by (simp add: initial_influenced_def)
  have fin: "finite ?F"
    by (rule run_rounds_finite) (simp add: initial_influenced_def)
  have "card (set seeds - dom hs) \<le> card ?F"
    using sub fin by (rule card_mono [rotated])
  then show ?thesis using sub
    by (auto simp: simulate_influence_def influenced_after_def Let_def)
qed

text \<open>Seed 7 is no node of the path and no hater; seed 3 is a hater.\<close>

theorem simulate_influence_counts_seeds_witness:
  "card (set [7, 3 :: int] - dom [3 \<mapsto> 1 / 2 :: real]) = 1
   \<and> 1 \<le> fst (simulate_influence binary64 (Some path3) (Some [7, 3]) (Some [3 \<mapsto> 1 / 2]) 1 1
                (\<lambda>k. 0) 0)
   \<and> 7 \<in> fst (influenced_after binary64 path3 [7, 3] [3 \<mapsto> 1 / 2] 1 1 (\<lambda>k. 0) 0)"
  using simulate_influence_counts_seeds
          [of "[7, 3]" "[3 \<mapsto> 1 / 2]" binary64 path3 1 1 "\<lambda>k. 0" 0]
  by simp

text \<open>
  Claim C3, as the code has it. A graph, seed list or hater map that is \<open>None\<close>, or a seed
  list that is empty, gives the count 0 as an ordinary result, and no random draw is made.
  An empty graph or an empty hater map does not: the count is then still at least the
  number of seeds that are not haters.
\<close>

theorem simulate_influence_missing_input:
  "graph = None \<or> seeds = None \<or> hs = None \<or> seeds = Some [] \<Longrightarrow>
     simulate_influence fp graph seeds hs p_base rounds r pos = (0, pos)"
  by (auto simp: simulate_influence_def influenced_after_def initial_influenced_def
        run_rounds_empty Let_def split: option.splits)

theorem simulate_influence_missing_input_witness:
  "simulate_influence binary64 None (Some [1]) (Some [3 \<mapsto> 1 / 2]) 1 1 (\<lambda>k. 0) 0 = (0, 0)
   \<and> simulate_influence binary64 (Some path3) (Some []) (Some [3 \<mapsto> 1 / 2]) 1 1 (\<lambda>k. 0) 0
       = (0, 0)"
  using simulate_influence_missing_input
          [of None "Some [1]" "Some [3 \<mapsto> 1 / 2]" binary64 1 1 "\<lambda>k. 0" 0]
    simulate_influence_missing_input
      [of "Some path3" "Some []" "Some [3 \<mapsto> 1 / 2]" binary64 1 1 "\<lambda>k. 0" 0]
  by simp

text \<open>
  The claim as stated fails on the empty graph with the empty hater map: the seed is
  counted.
\<close>

theorem simulate_influence_empty_counterexample:
  "fst (simulate_influence binary64 (Some empty_graph) (Some [1]) (Some Map.empty) P_BASE ROUNDS
          (\<lambda>k. 0) 0) \<noteq> 0"
  by (simp add: simulate_influence_def influenced_after_def initial_influenced_def
        run_rounds_empty_graph empty_graph_def)

section \<open>Influence scoring, and the top group\<close>

text \<open>
  A node with at least one neighbor gets the average of the one-hop probabilities: node 1
  of the example graph has the single neighbor 2, which has no hater-neighbor.
\<close>

lemma find_average_influence_one_neighbor:
  "find_average_influence binary64 isolated_graph Map.empty [1] (1 / 2) = Inr [0, 1 / 2]"
  by (simp add: find_average_influence_def isolated_graph_def neighbors_def in_graph_def
      find_P_u_v_def set_value_def numeral_2_eq_2 binary64_simps round_double_half)

text \<open>Every candidate with an empty neighbor list stops the scoring loop.\<close>

lemma zero_neighbors_raise:
  "in_graph g u \<Longrightarrow> adj g u = [] \<Longrightarrow>
     average_influence_loop fp g hs p (u # rest) l = Inl ZeroDivisionError"
  by (simp add: neighbors_def)

text \<open>
  Claim C8. The claim has the scoring stage guard the division by the neighbor count and
  give a node with no neighbor the score 0. The code divides by \<open>len(friends)\<close> with no
  guard: on the candidate 3, a node of the graph with no neighbor, the call ends in
  \<open>ZeroDivisionError\<close> and returns no score table, whatever the float arithmetic.
\<close>

theorem find_average_influence_isolated_node:
  "find_average_influence fp isolated_graph Map.empty [3] P_BASE = Inl ZeroDivisionError"
  by (simp add: find_average_influence_def isolated_graph_def neighbors_def in_graph_def)

lemma is_argsort_length: "is_argsort xs idx \<Longrightarrow> length idx = length xs"
  using distinct_card [of idx] by (simp add: is_argsort_def)

lemma stable_argsort_is_argsort: "is_argsort xs (stable_argsort xs)"
  by (auto simp: is_argsort_def stable_argsort_def)

lemma find_top_group_pos:
  "1 \<le> sz \<Longrightarrow>
     find_top_group argsort sz xs
       = rev (drop (length (argsort xs) - nat sz) (argsort xs))"
  by (auto simp: find_top_group_def slice_from_def Let_def max_def
      nat_diff_distrib' intro!: arg_cong [where f = "\<lambda>k. drop k (argsort xs)"])

text \<open>
  Claim C9, as the code has it. For a size of at least 1, \<open>find_top_group\<close> returns
  \<open>min size n\<close> distinct indices of the score table, the highest score first, and no index
  left out scores higher than one returned. This holds for every result that \<open>argsort\<close>
  may give; the order among equal scores is the reverse of the one \<open>argsort\<close> leaves them
  in, which numpy does not fix.
\<close>

theorem find_top_group_order:
  assumes "1 \<le> sz" "is_argsort xs (argsort xs)"
  shows "length (find_top_group argsort sz xs) = min (nat sz) (length xs)
    \<and> distinct (find_top_group argsort sz xs)
    \<and> set (find_top_group argsort sz xs) \<subseteq> {..<length xs}
    \<and> sorted_wrt (\<lambda>a b. xs ! b \<le> xs ! a) (find_top_group argsort sz xs)
    \<and> (\<forall>a \<in> set (find_top_group argsort sz xs). \<forall>b < length xs.
          b \<notin> set (find_top_group argsort sz xs) \<longrightarrow> xs ! b \<le> xs ! a)"
proof -
  let ?ys = "argsort xs"
  let ?k = "length ?ys - nat sz"
  let ?R = "\<lambda>a b. xs ! a \<le> xs ! b"
  have eq: "find_top_group argsort sz xs = rev (drop ?k ?ys)"
    using assms(1) by (rule find_top_group_pos)
  have ylen: "length ?ys = length xs"
    using assms(2) by (rule is_argsort_length)
  have ydist: "distinct ?ys" and yset: "set ?ys = {..<length xs}"
    using assms(2) by (simp_all add: is_argsort_def)
  have "sorted (map (\<lambda>i. xs ! i) ?ys)" using assms(2) by (simp add: is_argsort_def)
  then have ysorted: "sorted_wrt ?R ?ys" by (simp add: sorted_map)
  have len: "length (find_top_group argsort sz xs) = min (nat sz) (length xs)"
    unfolding eq using assms(1) ylen by simp
  have dist: "distinct (find_top_group argsort sz xs)"
    unfolding eq using ydist by simp
  have sub: "set (find_top_group argsort sz xs) \<subseteq> {..<length xs}"
    unfolding eq using set_drop_subset [of ?k ?ys] yset by simp
  have split: "sorted_wrt ?R (take ?k ?ys @ drop ?k ?ys)"
    using ysorted by simp
  have srt: "sorted_wrt (\<lambda>a b. xs ! b \<le> xs ! a) (find_top_group argsort sz xs)"
  proof -
    have "sorted_wrt ?R (drop ?k ?ys)" using split unfolding sorted_wrt_append by blast
    then have "sorted_wrt (\<lambda>a b. ?R b a) (rev (drop ?k ?ys))"
      by (simp add: sorted_wrt_rev)
    then show ?thesis unfolding eq .
  qed
  have top: "\<forall>a \<in> set (find_top_group argsort sz xs). \<forall>b < length xs.
          b \<notin> set (find_top_group argsort sz xs) \<longrightarrow> xs ! b \<le> xs ! a"
  proof (intro ballI allI impI)
    fix a b
    assume a: "a \<in> set (find_top_group argsort sz xs)" and b: "b < length xs"
      and nb: "b \<notin> set (find_top_group argsort sz xs)"
    have "b \<in> set (take ?k ?ys) \<union> set (drop ?k ?ys)"
      using b yset unfolding set_append [symmetric] by simp
    then have bt: "b \<in> set (take ?k ?ys)" using nb unfolding eq by auto
    have ad: "a \<in> set (drop ?k ?ys)" using a unfolding eq by simp
    from split bt ad show "xs ! b \<le> xs ! a" unfolding sorted_wrt_append by blast
  qed
  from len dist sub srt top show ?thesis by (intro conjI)
qed

text \<open>The scores 3, 7, 5 and 9 are all different, so \<open>argsort\<close> can only give 0, 2, 1, 3.\<close>

lemma stable_argsort_example: "stable_argsort [3, 7, 5, 9] = [0, 2, 1, 3]"
  by (simp add: stable_argsort_def upt_rec)

theorem find_top_group_order_witness:
  "(1::int) \<le> 2 \<and> is_argsort [3, 7, 5, 9] (stable_argsort [3, 7, 5, 9])
   \<and> find_top_group stable_argsort 2 [3, 7, 5, 9] = [3, 1]
   \<and> sorted_wrt (\<lambda>a b. [3, 7, 5, 9 :: real] ! b \<le> [3, 7, 5, 9] ! a)
        (find_top_group stable_argsort 2 [3, 7, 5, 9])"
proof -
  have h: "(1::int) \<le> 2" by simp
  have c: "is_argsort [3, 7, 5, 9] (stable_argsort [3, 7, 5, 9])"
    by (rule stable_argsort_is_argsort)
  have e: "find_top_group stable_argsort 2 [3, 7, 5, 9] = [3, 1]"
    by (simp add: find_top_group_def stable_argsort_example slice_from_def)
  from find_top_group_order
         [where sz = 2 and xs = "[3, 7, 5, 9]" and argsort = stable_argsort, OF h c]
  have "sorted_wrt (\<lambda>a b. [3, 7, 5, 9 :: real] ! b \<le> [3, 7, 5, 9] ! a)
          (find_top_group stable_argsort 2 [3, 7, 5, 9])" by blast
  with h c e show ?thesis by (intro conjI)
qed

text \<open>
  On a table of one score every \<open>argsort\<close> gives the index 0, and the slice \<open>[-0:]\<close> is the
  whole array: size 0 returns the index.
\<close>

lemma find_top_group_size_0:
  "is_argsort [x] (argsort [x]) \<Longrightarrow> find_top_group argsort 0 [x] = [0]"
proof -
  assume a: "is_argsort [x] (argsort [x])"
  then have "length (argsort [x]) = 1" using is_argsort_length [OF a] by simp
  then obtain i where i: "argsort [x] = [i]" by (cases "argsort [x]") auto
  with a have "i = 0" by (auto simp: is_argsort_def)
  with i show ?thesis by (simp add: find_top_group_def slice_from_def)
qed

text \<open>
  On two equal scores both orders of the indices are an \<open>argsort\<close>, so what numpy promises
  fixes no order of the result among equal scores.
\<close>

lemma equal_scores_order_open:
  "is_argsort [1, 1] [0, 1] \<and> find_top_group (\<lambda>xs. [0, 1]) 2 [1, 1] = [1, 0]
   \<and> is_argsort [1, 1] [1, 0] \<and> find_top_group (\<lambda>xs. [1, 0]) 2 [1, 1] = [0, 1]"
  by (auto simp: is_argsort_def find_top_group_def slice_from_def)

text \<open>
  The claim as stated fails: size 0 returns every index, not at most 0 of them.
\<close>

theorem find_top_group_counterexample:
  "find_top_group stable_argsort 0 [5] = [0]
   \<and> \<not> length (find_top_group stable_argsort 0 [5]) \<le> nat 0"
  by (simp add: find_top_group_def stable_argsort_def slice_from_def)

section \<open>Spreadness of a group\<close>

lemma fold_index_pairs:
  "fold (\<lambda>i st. fold (\<lambda>j. F i j) [i + 1..<n] st) xs st0
     = fold (\<lambda>p. F (fst p) (snd p)) (concat (map (\<lambda>i. map (\<lambda>j. (i, j)) [i + 1..<n]) xs)) st0"
proof (induction xs arbitrary: st0)
  case Nil
  then show ?case by simp
next
  case (Cons i xs)
  have "fold (\<lambda>p. F (fst p) (snd p)) (map (\<lambda>j. (i, j)) js) st = fold (\<lambda>j. F i j) js st" for js st
    by (induction js arbitrary: st) simp_all
  then show ?case using Cons.IH by simp
qed

lemma spreadness_loops_pairs:
  "spreadness_loops hp spl g grp
     = fold (\<lambda>p. pair_step hp spl g (grp ! fst p) (grp ! snd p)) (index_pairs (length grp)) (0, 0)"
  unfolding spreadness_loops_def index_pairs_def
  by (rule fold_index_pairs [where F = "\<lambda>i j. pair_step hp spl g (grp ! i) (grp ! j)"])

lemma fold_pair_step:
  assumes "\<forall>u v. hp g u v \<longrightarrow> spl g u v \<noteq> None"
  shows "fold (\<lambda>p. pair_step hp spl g (grp ! fst p) (grp ! snd p)) ps st
     = (fst st + sum_list (map (\<lambda>p. the (spl g (grp ! fst p) (grp ! snd p)))
                            (filter (\<lambda>p. hp g (grp ! fst p) (grp ! snd p)) ps)),
        snd st + length (filter (\<lambda>p. hp g (grp ! fst p) (grp ! snd p)) ps))"
proof (induction ps arbitrary: st)
  case Nil
  then show ?case by simp
next
  case (Cons p ps)
  show ?case
  proof (cases "hp g (grp ! fst p) (grp ! snd p)")
    case True
    then obtain d where "spl g (grp ! fst p) (grp ! snd p) = Some d"
      using assms by blast
    with True have "pair_step hp spl g (grp ! fst p) (grp ! snd p) st = (fst st + d, snd st + 1)"
      by (simp add: pair_step_def)
    then show ?thesis using True \<open>spl g (grp ! fst p) (grp ! snd p) = Some d\<close>
      by (simp add: Cons.IH)
  next
    case False
    then have "pair_step hp spl g (grp ! fst p) (grp ! snd p) st = st"
      by (simp add: pair_step_def)
    then show ?thesis using False by (simp add: Cons.IH)
  qed
qed

text \<open>
  Claim C7. \<open>compute_spreadness\<close> first keeps the nodes of the group that the graph has.
  With fewer than 2 of them left it returns 0. Otherwise it returns infinity when no pair
  of them is connected, and else the mean shortest-path distance over the connected pairs
  alone, the float quotient of their summed distances by their number: a pair that is not
  connected adds to neither the sum nor the count. The two networkx calls are any
  functions such that a shortest-path length exists where \<open>has_path\<close> holds, as networkx
  has it.
\<close>

theorem compute_spreadness_mean:
  assumes "\<forall>u v. has_path g u v \<longrightarrow> shortest_path_length g u v \<noteq> None"
  shows "compute_spreadness fp has_path shortest_path_length g grp0 =
     (let grp = filter (in_graph g) grp0; cps = connected_pairs has_path g grp in
      if length grp < 2 then Finite 0
      else if cps = [] then PosInf
      else Finite (mean_distance fp shortest_path_length g grp cps))"
  by (simp add: compute_spreadness_def Let_def spreadness_loops_pairs
      fold_pair_step [where hp = has_path and spl = shortest_path_length and g = g, OF assms]
      connected_pairs_def mean_distance_def)

text \<open>
  Groups on the path 1 - 2 - 3 with the isolated node 4; the id 9 is no node of the graph.
\<close>

lemma path3_plus_group: "filter (in_graph path3_plus) [1, 3, 4, 9] = [1, 3, 4]"
  by (simp add: in_graph_def path3_plus_def)

lemma path3_plus_connected:
  "connected_pairs has_path_example path3_plus [1, 3, 4] = [(0, 1)]"
  by (simp add: connected_pairs_def index_pairs_def has_path_example_def upt_rec)

lemma path3_plus_mean:
  "mean_distance binary64 shortest_path_length_example path3_plus [1, 3, 4] [(0, 1)] = 2"
  by (simp add: mean_distance_def shortest_path_length_example_def has_path_example_def
      binary64_simps round_double_2)

lemma path3_plus_apart:
  "compute_spreadness binary64 has_path_example shortest_path_length_example path3_plus [1, 4]
     = PosInf"
  by (simp add: compute_spreadness_def spreadness_loops_def path3_plus_def in_graph_def
     pair_step_def has_path_example_def shortest_path_length_example_def upt_rec)

lemma path3_plus_single:
  "compute_spreadness binary64 has_path_example shortest_path_length_example path3_plus [1, 9]
     = Finite 0"
  by (simp add: compute_spreadness_def spreadness_loops_def path3_plus_def in_graph_def
     pair_step_def has_path_example_def shortest_path_length_example_def upt_rec)

theorem compute_spreadness_mean_witness:
  "compute_spreadness binary64 has_path_example shortest_path_length_example path3_plus
     [1, 3, 4, 9] = Finite 2
   \<and> compute_spreadness binary64 has_path_example shortest_path_length_example path3_plus [1, 4]
       = PosInf
   \<and> compute_spreadness binary64 has_path_example shortest_path_length_example path3_plus [1, 9]
       = Finite 0"
proof -
  have h: "\<forall>u v. has_path_example path3_plus u v \<longrightarrow>
             shortest_path_length_example path3_plus u v \<noteq> None"
    by (simp add: shortest_path_length_example_def)
  have a: "compute_spreadness binary64 has_path_example shortest_path_length_example path3_plus
             [1, 3, 4, 9] = Finite 2"
    using compute_spreadness_mean
            [of has_path_example path3_plus shortest_path_length_example binary64 "[1, 3, 4, 9]",
             OF h, unfolded path3_plus_group Let_def path3_plus_connected path3_plus_mean]
    by simp
  from a path3_plus_apart path3_plus_single show ?thesis by (intro conjI)
qed

section \<open>The sampled groups\<close>



lemma pack_group_no_error:
  "set rest \<subseteq> dom cs \<Longrightarrow> \<exists>res. pack_group fp cs budget rest grp tot = Inr res"
  by (induction rest arbitrary: grp tot) (auto simp: Let_def)

















section \<open>The Monte-Carlo selection\<close>

text \<open>
  The threshold of a leaf of the star once the center is influenced. At \<open>P_BASE\<close> it is
  the double \<open>0.19999999999999996\<close>, which is not \<open>1 - (1 - P_BASE)\<close>; at the base
  probability 0 it is 0.
\<close>

lemma P_BASE_threshold:
  "1 \<in> I \<Longrightarrow>
     prob_infected binary64 Map.empty P_BASE I [1] = 900719925474099 / 4503599627370496"
  by (simp add: prob_infected_def prob_not_infected_by_any_def anti_influence_product_def
      hater_neighbors_of_def influencing_neighbors_def binary64_simps P_BASE_def
      round_double_P_BASE round_double_1_minus_P_BASE round_double_08 round_double_02)

lemma P_BASE_threshold_differs:
  "prob_infected binary64 Map.empty P_BASE {1} [1] \<noteq> 1 - (1 - P_BASE * 1)"
  by (subst P_BASE_threshold) (simp_all add: P_BASE_def)

lemma zero_threshold:
  "prob_infected binary64 Map.empty 0 I [1] = 0"
  by (simp add: prob_infected_def prob_not_infected_by_any_def anti_influence_product_def
      hater_neighbors_of_def influencing_neighbors_def binary64_simps
      round_double_0 round_double_1)

text \<open>
  The six rounds of the run from the seed 1 with the constants \<open>P_BASE\<close> and \<open>ROUNDS\<close>,
  from the third draw on: leaf 5 is infected in round 3 and leaf 4 in round 5.
\<close>

lemmas star3_simps = round_pass_def simulate_round_def star3_def candidate_step_def
  neighbors_def in_graph_def influencing_neighbors_def draws_seed42_def seed42_draws_def

lemma star3_round_1:
  "simulate_round binary64 star3 Map.empty P_BASE draws_seed42 ({1}, 2) = ({1}, 4)"
  by (simp add: star3_simps P_BASE_threshold)

lemma star3_round_2:
  "simulate_round binary64 star3 Map.empty P_BASE draws_seed42 ({1}, 4) = ({1}, 6)"
  by (simp add: star3_simps P_BASE_threshold)

lemma star3_round_3:
  "simulate_round binary64 star3 Map.empty P_BASE draws_seed42 ({1}, 6) = ({1, 5}, 8)"
  by (simp add: star3_simps P_BASE_threshold)

lemma star3_round_4:
  "simulate_round binary64 star3 Map.empty P_BASE draws_seed42 ({1, 5}, 8) = ({1, 5}, 9)"
  by (simp add: star3_simps P_BASE_threshold)

lemma star3_round_5:
  "simulate_round binary64 star3 Map.empty P_BASE draws_seed42 ({1, 5}, 9) = ({1, 4, 5}, 10)"
  by (auto simp add: star3_simps P_BASE_threshold)

lemma star3_round_6:
  "simulate_round binary64 star3 Map.empty P_BASE draws_seed42 ({1, 4, 5}, 10) = ({1, 4, 5}, 10)"
  by (simp add: star3_simps)

lemma run_rounds_6:
  "run_rounds fp g hs p r 6 st
     = simulate_round fp g hs p r (simulate_round fp g hs p r (simulate_round fp g hs p r
         (simulate_round fp g hs p r (simulate_round fp g hs p r (simulate_round fp g hs p r st)))))"
  by (simp add: eval_nat_numeral)

lemma star3_P_BASE_run:
  "simulate_influence binary64 (Some star3) (Some [1]) (Some Map.empty) P_BASE ROUNDS draws_seed42 2
     = (3, 10)"
  by (simp add: simulate_influence_def influenced_after_def initial_influenced_def ROUNDS_def
      run_rounds_6 star3_round_1 star3_round_2 star3_round_3 star3_round_4 star3_round_5
      star3_round_6)

text \<open>The seeds 2 and 3 are no nodes of the star: they infect nothing and draw nothing.\<close>

lemma star3_outside_round:
  "simulate_round fp star3 Map.empty p r ({2, 3}, pos) = ({2, 3}, pos)"
  by (simp add: round_pass_def simulate_round_def star3_def candidate_step_def
      neighbors_def in_graph_def influencing_neighbors_def)

lemma star3_outside_run:
  "simulate_influence fp (Some star3) (Some [2, 3]) (Some Map.empty) p rounds r pos = (2, pos)"
proof -
  have "run_rounds fp star3 Map.empty p r n ({2, 3}, pos) = ({2, 3}, pos)" for n
    by (induction n) (simp_all add: star3_outside_round)
  then show ?thesis
    by (simp add: simulate_influence_def influenced_after_def initial_influenced_def)
qed

text \<open>With the base probability 0 the two draws of the round infect no leaf.\<close>

lemma star3_zero_run:
  "simulate_influence binary64 (Some star3) (Some [1]) (Some Map.empty) 0 1 draws_seed42 0
     = (1, 2)"
  by (simp add: simulate_influence_def influenced_after_def initial_influenced_def
      star3_simps zero_threshold)

lemma star3_estimate_first:
  "average_num_tests_simulates binary64 (Some star3) [1] (Some Map.empty) 0 1 1 draws_seed42 0
     = Inr (1, 2)"
  by (simp add: average_num_tests_simulates_def star3_zero_run binary64_simps round_double_1)

lemma star3_estimate_second:
  "average_num_tests_simulates binary64 (Some star3) [2, 3] (Some Map.empty) p rounds 1 r pos
     = Inr (2, pos)"
  by (simp add: average_num_tests_simulates_def star3_outside_run binary64_simps round_double_2)

lemma star3_loop_first:
  "average_num_tests_simulates binary64 (Some star3) [1] (Some Map.empty) P_BASE ROUNDS 1
     draws_seed42 2 = Inr (3, 10)"
  by (simp add: average_num_tests_simulates_def star3_P_BASE_run binary64_simps round_double_3)

text \<open>
  Claim C4. The claim has the group returned whose estimate under the arguments \<open>p_base\<close>
  and \<open>rounds\<close> is the highest. On the star, with the arguments \<open>p_base = 0\<close> and
  \<open>rounds = 1\<close> and one trial, the estimates are 1 for the group of node 1 and 2 for the
  group of 2 and 3, so the claim has the second group returned. The loop of the code
  estimates with the constants \<open>P_BASE\<close> and \<open>ROUNDS\<close>, under which the group of node 1
  reaches 3, and the code returns the first group.
\<close>

theorem greedy_based_simulate_ignores_arguments:
  "greedy_based_simulate binary64 [[1], [2, 3]] (Some star3) (Some Map.empty) 0 1 1 draws_seed42 0
     = Inr [1]
   \<and> average_num_tests_simulates binary64 (Some star3) [1] (Some Map.empty) 0 1 1 draws_seed42 0
       = Inr (1, 2)
   \<and> average_num_tests_simulates binary64 (Some star3) [2, 3] (Some Map.empty) 0 1 1 draws_seed42 2
       = Inr (2, 2)"
  by (simp add: greedy_based_simulate_def star3_estimate_first star3_estimate_second
      star3_loop_first)

end
